theory Spec2Isabelle
  imports Main
begin

section \<open>JavaScript values, strings and objects\<close>

text \<open>
  The module \<^verbatim>\<open>src/lib/operations/tables.js\<close> builds DDL text from plain JavaScript
  objects. Strings are modelled as \<^typ>\<open>string\<close>; of the line terminators of
  ECMAScript (LF, CR, U+2028, U+2029) the first two are characters of that type.

  The inputs are those of the data model: a column is given by a string, an option
  object or \<^verbatim>\<open>undefined\<close>; a shorthand dictionary maps names to option objects; the
  flags of an option object and its default are values (\<^verbatim>\<open>jsval\<close>), its type is a
  string or absent, and its texts (\<^verbatim>\<open>check\<close>, \<^verbatim>\<open>references\<close>, \<^verbatim>\<open>onDelete\<close>,
  \<^verbatim>\<open>onUpdate\<close>, \<^verbatim>\<open>inherits\<close>) are strings or absent (\<^term>\<open>None\<close>).
\<close>

datatype jsval = Undefined | Null | Bool bool | Num int | Str string

text \<open>Truthiness, as tested by \<^verbatim>\<open>if (x)\<close> and \<^verbatim>\<open>x ? a : b\<close>.\<close>

fun truthy :: "jsval \<Rightarrow> bool" where
  "truthy Undefined = False"
| "truthy Null = False"
| "truthy (Bool b) = b"
| "truthy (Num n) = (n \<noteq> 0)"
| "truthy (Str s) = (s \<noteq> [])"

fun truthy_text :: "string option \<Rightarrow> bool" where
  "truthy_text None = False"
| "truthy_text (Some s) = (s \<noteq> [])"

text \<open>
  The value of a \<^verbatim>\<open>type\<close> field: absent, a type token, or a member that a property
  read found on \<^verbatim>\<open>Object.prototype\<close> (a built-in function, or the prototype itself
  for \<^verbatim>\<open>__proto__\<close>), named by its key.
\<close>

datatype tyval = NoType | TypeName string | Inherited string

fun truthy_type :: "tyval \<Rightarrow> bool" where
  "truthy_type NoType = False"
| "truthy_type (TypeName s) = (s \<noteq> [])"
| "truthy_type (Inherited k) = True"

text \<open>
  The keys that every object literal inherits from \<^verbatim>\<open>Object.prototype\<close>
  (ECMAScript, with Annex B). A read \<^verbatim>\<open>obj[key]\<close> that finds no own property
  continues there.
\<close>

definition object_prototype :: "string list" where
  "object_prototype =
     [''constructor'', ''hasOwnProperty'', ''isPrototypeOf'', ''propertyIsEnumerable'',
      ''toLocaleString'', ''toString'', ''valueOf'', ''__proto__'',
      ''__defineGetter__'', ''__defineSetter__'', ''__lookupGetter__'', ''__lookupSetter__'']"

text \<open>\<^verbatim>\<open>obj[key]\<close> for an object literal whose own properties hold strings.\<close>

definition member :: "(string \<times> string) list \<Rightarrow> string \<Rightarrow> tyval" where
  "member obj key =
     (case map_of obj key of
        Some v \<Rightarrow> TypeName v
      | None \<Rightarrow> if key \<in> set object_prototype then Inherited key else NoType)"

text \<open>\<^verbatim>\<open>Array.prototype.join\<close> on an array of strings.\<close>

fun join :: "string \<Rightarrow> string list \<Rightarrow> string" where
  "join sep [] = []"
| "join sep [x] = x"
| "join sep (x # y # ys) = x @ sep @ join sep (y # ys)"

text \<open>\<^verbatim>\<open>Array.prototype.push\<close>, returning the array.\<close>

definition push :: "'a list \<Rightarrow> 'a \<Rightarrow> 'a list" where
  "push xs x = xs @ [x]"

subsection \<open>\<^verbatim>\<open>String.prototype.replace(/^/gm, replacement)\<close>\<close>

text \<open>
  The pattern \<^verbatim>\<open>/^/gm\<close> matches the empty string at position 0 and after every line
  terminator. Each match is replaced by the expansion of the replacement string, in which
  \<^verbatim>\<open>$$\<close> stands for a dollar sign, \<^verbatim>\<open>$&\<close> for the matched text (empty here),
  \<^verbatim>\<open>$`\<close> for the text before the match and \<^verbatim>\<open>$'\<close> for the text after it; the
  pattern has no capture group, so every other \<^verbatim>\<open>$\<close> is literal.
\<close>

fun get_substitution :: "string \<Rightarrow> string \<Rightarrow> string \<Rightarrow> string" where
  "get_substitution preceding following (c # d # rest) =
     (if c = CHR ''$'' \<and> d = CHR ''$'' then CHR ''$'' # get_substitution preceding following rest
      else if c = CHR ''$'' \<and> d = CHR ''&'' then get_substitution preceding following rest
      else if c = CHR ''$'' \<and> d = CHR 0x60
      then preceding @ get_substitution preceding following rest
      else if c = CHR ''$'' \<and> d = CHR 0x27
      then following @ get_substitution preceding following rest
      else c # get_substitution preceding following (d # rest))"
| "get_substitution preceding following rest = rest"

definition is_line_terminator :: "char \<Rightarrow> bool" where
  "is_line_terminator c = (c = CHR 0x0A \<or> c = CHR 0x0D)"

fun replace_after_terminators :: "string \<Rightarrow> string \<Rightarrow> string \<Rightarrow> string" where
  "replace_after_terminators replacement preceding [] = []"
| "replace_after_terminators replacement preceding (c # following) =
     c # (if is_line_terminator c
          then get_substitution (preceding @ [c]) following replacement else [])
       @ replace_after_terminators replacement (preceding @ [c]) following"

definition replace_line_starts :: "string \<Rightarrow> string \<Rightarrow> string" where
  "replace_line_starts replacement s =
     get_substitution [] s replacement @ replace_after_terminators replacement [] s"

subsection \<open>The collaborators of \<^verbatim>\<open>../utils\<close>\<close>

text \<open>
  \<^verbatim>\<open>escapeValue\<close> and \<^verbatim>\<open>template\<close> are imported from \<^verbatim>\<open>../utils\<close>, which is not
  among the sources. \<^verbatim>\<open>escapeValue\<close> (a value to the text of its DDL literal) is a
  parameter of the model. So is the text that stands for a \<^verbatim>\<open>type\<close> that is not a
  string when it is interpolated (\<^verbatim>\<open>undefined\<close>, or the implementation-defined source
  text of a built-in function).
\<close>

record env =
  escapeValue :: "jsval \<Rightarrow> string"
  render_other :: "tyval \<Rightarrow> string"

definition type_text :: "env \<Rightarrow> tyval \<Rightarrow> string" where
  "type_text e t = (case t of TypeName s \<Rightarrow> s | _ \<Rightarrow> render_other e t)"

text \<open>
  Modelled from the spec: \<^verbatim>\<open>template\<close>, the tag function of \<^verbatim>\<open>../utils\<close>, which is
  not among the sources. The specification describes it as formatting a SQL fragment by
  positionally substituting already-quoted or escaped pieces: the literal parts of the
  template alternate with the substituted texts.
\<close>

fun template :: "string list \<Rightarrow> string list \<Rightarrow> string" where
  "template (s # strings) (k # keys) = s @ k @ template strings keys"
| "template (s # strings) [] = s"
| "template [] keys = []"

section \<open>Type adapters and shorthands\<close>

definition type_adapters :: "(string \<times> string) list" where
  "type_adapters =
     [(''int'', ''integer''),
      (''string'', ''text''),
      (''float'', ''real''),
      (''double'', ''double precision''),
      (''datetime'', ''timestamp''),
      (''bool'', ''boolean'')]"

text \<open>
  \<^verbatim>\<open>type => (type_adapters[type] ? type_adapters[type] : type)\<close>. A token that is not a
  string is converted to a property key first (\<^verbatim>\<open>undefined\<close>, or the source text of a
  function), which names no property of the table or of its prototype.
\<close>

definition applyTypeAdapters :: "tyval \<Rightarrow> tyval" where
  "applyTypeAdapters type' =
     (case type' of
        TypeName t \<Rightarrow>
          (if truthy_type (member type_adapters t) then member type_adapters t else type')
      | _ \<Rightarrow> type')"

text \<open>
  An option object. One record type serves the column options, the option delta of
  \<^verbatim>\<open>alterColumn\<close> (which also reads \<^verbatim>\<open>allowNull\<close>) and the options of
  \<^verbatim>\<open>create\<close> (\<^verbatim>\<open>inherits\<close>); a field that is not written is \<^verbatim>\<open>undefined\<close>.
\<close>

record options =
  type :: tyval
  default_value :: jsval
  unique :: jsval
  primaryKey :: jsval
  notNull :: jsval
  check :: "string option"
  references :: "string option"
  onDelete :: "string option"
  onUpdate :: "string option"
  allowNull :: jsval
  inherits :: "string option"

definition empty_options :: options where
  "empty_options =
     \<lparr>type = NoType, default_value = Undefined, unique = Undefined, primaryKey = Undefined,
      notNull = Undefined, check = None, references = None, onDelete = None, onUpdate = None,
      allowNull = Undefined, inherits = None\<rparr>"

text \<open>
  Option objects are passed by reference and \<^verbatim>\<open>parseColumns\<close> assigns to them, so
  the objects of the caller live in a heap. Address 0 holds the module's own object
  \<^verbatim>\<open>default_type_shorthands.id\<close>.
\<close>

type_synonym addr = nat
type_synonym heap = "addr \<Rightarrow> options"

text \<open>A ColumnSpec: a string, an option object, or \<^verbatim>\<open>undefined\<close>.\<close>

datatype colspec = Shorthand string | Record addr | Missing

text \<open>A ColumnSet: the own properties of the object, in enumeration order.\<close>

type_synonym columns = "(string \<times> colspec) list"

text \<open>
  What \<^verbatim>\<open>options\<close> refers to inside the callback: an object of the heap, an object
  created by the call, or a member inherited from \<^verbatim>\<open>Object.prototype\<close>.
\<close>

datatype objref = Stored addr | Fresh options | Proto string

definition id_addr :: addr where
  "id_addr = 0"

definition default_type_shorthands :: "string \<rightharpoonup> addr" where
  "default_type_shorthands = [''id'' \<mapsto> id_addr]"

definition module_heap :: heap where
  "module_heap =
     (\<lambda>a. empty_options)
       (id_addr := empty_options\<lparr>type := TypeName ''serial'', primaryKey := Bool True\<rparr>)"

text \<open>
  Reading the fields of what a reference denotes. The built-in members have none of the
  fields read here, and the \<^verbatim>\<open>type\<close> written to them is \<^verbatim>\<open>undefined\<close>.
\<close>

fun deref :: "heap \<Rightarrow> objref \<Rightarrow> options" where
  "deref h (Stored a) = h a"
| "deref h (Fresh opts) = opts"
| "deref h (Proto k) = empty_options"

section \<open>The column compiler\<close>

text \<open>
  \<^verbatim>\<open>type_shorthands[options] ? type_shorthands[options] : { type: options }\<close>
  (lines 26 to 28).
\<close>

definition resolve_shorthand :: "(string \<rightharpoonup> addr) \<Rightarrow> string \<Rightarrow> objref" where
  "resolve_shorthand type_shorthands s =
     (case type_shorthands s of
        Some a \<Rightarrow> Stored a
      | None \<Rightarrow>
          if s \<in> set object_prototype then Proto s
          else Fresh (empty_options\<lparr>type := TypeName s\<rparr>))"

text \<open>\<^verbatim>\<open>options.type = applyTypeAdapters(options.type)\<close> (line 31).\<close>

fun assign_type :: "objref \<Rightarrow> heap \<Rightarrow> objref \<times> heap" where
  "assign_type (Stored a) h =
     (Stored a, h(a := (h a)\<lparr>type := applyTypeAdapters (type (h a))\<rparr>))"
| "assign_type (Fresh opts) h = (Fresh (opts\<lparr>type := applyTypeAdapters (type opts)\<rparr>), h)"
| "assign_type (Proto k) h = (Proto k, h)"

text \<open>
  Lines 24 to 29: what \<^verbatim>\<open>options\<close> refers to when line 31 is reached. A column
  whose value is \<^verbatim>\<open>undefined\<close> gets the default \<^verbatim>\<open>{}\<close> of the parameter.
\<close>

definition referent :: "(string \<rightharpoonup> addr) \<Rightarrow> colspec \<Rightarrow> objref" where
  "referent type_shorthands spec =
     (case spec of
        Missing \<Rightarrow> Fresh empty_options
      | Shorthand s \<Rightarrow> resolve_shorthand type_shorthands s
      | Record a \<Rightarrow> Stored a)"

text \<open>The callback of \<^verbatim>\<open>_.mapValues\<close> (lines 24 to 34).\<close>

definition expand_options :: "(string \<rightharpoonup> addr) \<Rightarrow> colspec \<Rightarrow> heap \<Rightarrow> objref \<times> heap" where
  "expand_options type_shorthands spec h = assign_type (referent type_shorthands spec) h"

fun mapValues ::
  "('v \<Rightarrow> heap \<Rightarrow> 'w \<times> heap) \<Rightarrow> (string \<times> 'v) list \<Rightarrow> heap \<Rightarrow> (string \<times> 'w) list \<times> heap"
where
  "mapValues f [] h = ([], h)"
| "mapValues f ((k, v) # rest) h =
     (case f v h of (w, h1) \<Rightarrow>
        (case mapValues f rest h1 of (ws, h2) \<Rightarrow> ((k, w) # ws, h2)))"

text \<open>
  \<^verbatim>\<open>columnsWithOptions\<close> after line 34, each reference read through the heap the
  callbacks have left, and that heap.
\<close>

definition expand_columns ::
  "(string \<rightharpoonup> addr) \<Rightarrow> columns \<Rightarrow> heap \<Rightarrow> (string \<times> options) list \<times> heap"
where
  "expand_columns extending_type_shorthands columns h =
     (let type_shorthands = default_type_shorthands ++ extending_type_shorthands in
      case mapValues (expand_options type_shorthands) columns h of
        (refs, h') \<Rightarrow> (map (\<lambda>(column_name, r). (column_name, deref h' r)) refs, h'))"

text \<open>
  Lines 36 to 39: each column is mapped to its name or to \<^verbatim>\<open>null\<close>, and
  \<^verbatim>\<open>.filter()\<close> keeps the truthy entries.
\<close>

definition primaryColumns :: "(string \<times> options) list \<Rightarrow> string list" where
  "primaryColumns columnsWithOptions =
     map the
       (filter truthy_text
          (map (\<lambda>(column_name, options).
                  if truthy (primaryKey options) then Some column_name else None)
             columnsWithOptions))"

definition quote :: "string list \<Rightarrow> string list" where
  \<open>quote array = map (\<lambda>item. template [''"'', ''"''] [item]) array\<close>

text \<open>Lines 50 to 71.\<close>

definition column_constraints :: "options \<Rightarrow> string list" where
  "column_constraints options =
     (let constraints = [];
          constraints = (if truthy (unique options) then push constraints ''UNIQUE''
                         else constraints);
          constraints = (if truthy (primaryKey options) then push constraints ''PRIMARY KEY''
                         else constraints);
          constraints = (if truthy (notNull options) then push constraints ''NOT NULL''
                         else constraints);
          constraints = (if truthy_text (check options)
                         then push constraints (''CHECK ('' @ the (check options) @ '')'')
                         else constraints)
      in if truthy_text (references options) then
           (let constraints = push constraints (''REFERENCES '' @ the (references options));
                constraints = (if truthy_text (onDelete options)
                               then push constraints (''ON DELETE '' @ the (onDelete options))
                               else constraints)
            in if truthy_text (onUpdate options)
               then push constraints (''ON UPDATE '' @ the (onUpdate options))
               else constraints)
         else constraints)"

text \<open>Lines 73 to 76.\<close>

definition column_definition :: "env \<Rightarrow> string \<Rightarrow> options \<Rightarrow> string" where
  \<open>column_definition e column_name options =
     (let constraints = column_constraints options;
          defaultValue = (if default_value options \<noteq> Undefined
                          then '' DEFAULT '' @ escapeValue e (default_value options) else '''');
          constraintsString = (if length constraints \<noteq> 0 then '' '' @ join '' '' constraints
                               else '''')
      in template [''"'', ''" '', '''', '''', '''']
           [column_name, type_text e (type options), defaultValue, constraintsString])\<close>

text \<open>Line 79.\<close>

definition pkey_constraint :: "string \<Rightarrow> string list \<Rightarrow> string" where
  \<open>pkey_constraint table_name primary =
     ''CONSTRAINT "'' @ table_name @ ''_pkey" PRIMARY KEY ('' @ join '', '' (quote primary) @ '')''\<close>

text \<open>
  Lines 36 to 81, from the expanded columns: the column options as they are emitted
  (after lines 42 to 47), and the array that line 82 joins.
\<close>

definition emitted_options :: "(string \<times> options) list \<Rightarrow> (string \<times> options) list" where
  "emitted_options columnsWithOptions =
     (let multiplePrimaryColumns = length (primaryColumns columnsWithOptions) > 1 in
      if multiplePrimaryColumns
      then map (\<lambda>(column_name, options). (column_name, options\<lparr>primaryKey := Bool False\<rparr>))
             columnsWithOptions
      else columnsWithOptions)"

definition column_lines :: "env \<Rightarrow> string \<Rightarrow> (string \<times> options) list \<Rightarrow> string list" where
  "column_lines e table_name columnsWithOptions =
     (let multiplePrimaryColumns = length (primaryColumns columnsWithOptions) > 1 in
      map (\<lambda>(column_name, options). column_definition e column_name options)
        (emitted_options columnsWithOptions)
      @ (if multiplePrimaryColumns
         then [pkey_constraint table_name (primaryColumns columnsWithOptions)]
         else []))"

definition parseColumns ::
  "env \<Rightarrow> columns \<Rightarrow> string \<Rightarrow> (string \<rightharpoonup> addr) \<Rightarrow> heap \<Rightarrow> string \<times> heap"
where
  "parseColumns e columns table_name extending_type_shorthands h =
     (case expand_columns extending_type_shorthands columns h of
        (columnsWithOptions, h') \<Rightarrow>
          (join '',\<newline>'' (column_lines e table_name columnsWithOptions), h'))"

section \<open>Statement builders\<close>

text \<open>
  The builders that call \<^const>\<open>parseColumns\<close> return the heap it leaves together with
  the statement. \<^verbatim>\<open>type_shorthands\<close> and \<^verbatim>\<open>options\<close> that the caller leaves out
  are the empty map and \<^const>\<open>empty_options\<close>.
\<close>

definition create ::
  "env \<Rightarrow> (string \<rightharpoonup> addr) \<Rightarrow> string \<Rightarrow> columns \<Rightarrow> options \<Rightarrow> heap \<Rightarrow> string \<times> heap"
where
  \<open>create e type_shorthands table_name columns options h =
     (case parseColumns e columns table_name type_shorthands h of
        (parsed, h') \<Rightarrow>
          (let columnsString = replace_line_starts ''  '' parsed;
               inherits = (if truthy_text (inherits options)
                           then '' INHERITS '' @ the (inherits options) else '''')
           in (template [''CREATE TABLE "'', ''" (\<newline>'', ''\<newline>)'', '';'']
                 [table_name, columnsString, inherits], h')))\<close>

definition drop :: "string \<Rightarrow> string" where
  \<open>drop table_name = template [''DROP TABLE "'', ''";''] [table_name]\<close>

definition addColumns ::
  "env \<Rightarrow> (string \<rightharpoonup> addr) \<Rightarrow> string \<Rightarrow> columns \<Rightarrow> heap \<Rightarrow> string \<times> heap"
where
  \<open>addColumns e type_shorthands table_name columns h =
     (case parseColumns e columns table_name type_shorthands h of
        (parsed, h') \<Rightarrow>
          (template [''ALTER TABLE "'', ''"\<newline>'', '';'']
             [table_name, replace_line_starts ''  ADD '' parsed], h'))\<close>

text \<open>The \<^verbatim>\<open>columns\<close> argument of \<^verbatim>\<open>dropColumns\<close>: a string, an array, an object.\<close>

datatype dropped = Name string | Names "string list" | ColumnSet columns

definition dropColumns :: "string \<Rightarrow> dropped \<Rightarrow> string" where
  \<open>dropColumns table_name columns =
     (let columns = (case columns of
                       Name s \<Rightarrow> [s]
                     | Names array \<Rightarrow> array
                     | ColumnSet object \<Rightarrow> map fst object)
      in template [''ALTER TABLE "'', ''"\<newline>'', '';'']
           [table_name, replace_line_starts ''  DROP '' (join '',\<newline>'' (quote columns))])\<close>

text \<open>Lines 115 to 128.\<close>

definition alterColumn_actions :: "env \<Rightarrow> options \<Rightarrow> string list" where
  "alterColumn_actions e options =
     (let actions = [];
          actions = (if default_value options = Null then push actions ''DROP DEFAULT''
                     else if default_value options \<noteq> Undefined
                     then push actions (''SET DEFAULT '' @ escapeValue e (default_value options))
                     else actions);
          actions = (if truthy_type (type options)
                     then push actions
                            (''SET DATA TYPE '' @ type_text e (applyTypeAdapters (type options)))
                     else actions)
      in if truthy (notNull options) then push actions ''SET NOT NULL''
         else if notNull options = Bool False \<or> truthy (allowNull options)
         then push actions ''DROP NOT NULL''
         else actions)"

definition alterColumn :: "env \<Rightarrow> string \<Rightarrow> string \<Rightarrow> options \<Rightarrow> string" where
  \<open>alterColumn e table_name column_name options =
     template [''ALTER TABLE "'', ''"\<newline>'', '';'']
       [table_name,
        replace_line_starts (''  ALTER "'' @ column_name @ ''" '')
          (join '',\<newline>'' (alterColumn_actions e options))]\<close>

definition renameTable :: "string \<Rightarrow> string \<Rightarrow> string" where
  \<open>renameTable table_name new_name =
     template [''ALTER TABLE "'', ''" RENAME TO "'', ''";''] [table_name, new_name]\<close>

definition undoRenameTable :: "string \<Rightarrow> string \<Rightarrow> string" where
  "undoRenameTable table_name new_name = renameTable new_name table_name"

definition renameColumn :: "string \<Rightarrow> string \<Rightarrow> string \<Rightarrow> string" where
  \<open>renameColumn table_name column_name new_name =
     template [''ALTER TABLE "'', ''" RENAME "'', ''" TO "'', ''";'']
       [table_name, column_name, new_name]\<close>

definition undoRenameColumn :: "string \<Rightarrow> string \<Rightarrow> string \<Rightarrow> string" where
  "undoRenameColumn table_name column_name new_name =
     renameColumn table_name new_name column_name"

definition addConstraint :: "string \<Rightarrow> string option \<Rightarrow> string \<Rightarrow> string" where
  \<open>addConstraint table_name constraint_name expression =
     template [''ALTER TABLE "'', ''" ADD'', '' '', '';'']
       [table_name,
        (if truthy_text constraint_name then '' CONSTRAINT "'' @ the constraint_name @ ''"''
         else ''''),
        expression]\<close>

definition dropConstraint :: "string \<Rightarrow> string \<Rightarrow> string" where
  \<open>dropConstraint table_name constraint_name =
     template [''ALTER TABLE "'', ''" DROP CONSTRAINT "'', ''";''] [table_name, constraint_name]\<close>

text \<open>The \<^verbatim>\<open>options\<close> argument of \<^verbatim>\<open>createType\<close>: an array of labels, or a ColumnSet.\<close>

datatype type_options = Labels "string list" | Attributes columns

text \<open>
  For a ColumnSet, \<^verbatim>\<open>parseColumns(options)\<close> is called without a table name and
  without shorthands: line 79 then interpolates \<^verbatim>\<open>undefined\<close> into a plain template
  literal, which gives the text \<^verbatim>\<open>undefined\<close>.
\<close>

definition createType :: "env \<Rightarrow> string \<Rightarrow> type_options \<Rightarrow> heap \<Rightarrow> string \<times> heap" where
  \<open>createType e type_name options h =
     (case options of
        Labels array \<Rightarrow>
          (template [''CREATE TYPE "'', ''" AS ENUM ('' @ [CHR 0x27], [CHR 0x27] @ '');'']
             [type_name, join ([CHR 0x27] @ '', '' @ [CHR 0x27]) array], h)
      | Attributes object \<Rightarrow>
          (case parseColumns e object ''undefined'' Map.empty h of
             (parsed, h') \<Rightarrow>
               (template [''CREATE TYPE "'', ''" AS (\<newline>'', ''\<newline>);''] [type_name, parsed], h')))\<close>

definition dropType :: "string \<Rightarrow> string" where
  \<open>dropType type_name = template [''DROP TYPE "'', ''";''] [type_name]\<close>

text \<open>\<^verbatim>\<open>alterType = () => null\<close>.\<close>

definition alterType :: "string option" where
  "alterType = None"

subsection \<open>The reverse functions\<close>

datatype builder =
  Create | Drop | AddColumns | DropColumns | AlterColumn
  | RenameTable | UndoRenameTable | RenameColumn | UndoRenameColumn
  | AddConstraint | DropConstraint | CreateType | DropType | AlterType

text \<open>Lines 165 to 170: the \<^verbatim>\<open>reverse\<close> property of each builder, if it has one.\<close>

fun reverse :: "builder \<Rightarrow> builder option" where
  "reverse Create = Some Drop"
| "reverse AddColumns = Some DropColumns"
| "reverse AddConstraint = Some DropConstraint"
| "reverse CreateType = Some DropType"
| "reverse RenameColumn = Some UndoRenameColumn"
| "reverse RenameTable = Some UndoRenameTable"
| "reverse b = None"

text \<open>A call of a builder with its arguments, and its result on a heap.\<close>

datatype call =
  CallCreate "string \<rightharpoonup> addr" string columns options
  | CallDrop string
  | CallAddColumns "string \<rightharpoonup> addr" string columns
  | CallDropColumns string dropped
  | CallAlterColumn string string options
  | CallRenameTable string string
  | CallUndoRenameTable string string
  | CallRenameColumn string string string
  | CallUndoRenameColumn string string string
  | CallAddConstraint string "string option" string
  | CallDropConstraint string string
  | CallCreateType string type_options
  | CallDropType string
  | CallAlterType

fun run :: "env \<Rightarrow> call \<Rightarrow> heap \<Rightarrow> string option \<times> heap" where
  "run e (CallCreate sh t cs opts) h = (case create e sh t cs opts h of (s, h') \<Rightarrow> (Some s, h'))"
| "run e (CallDrop t) h = (Some (drop t), h)"
| "run e (CallAddColumns sh t cs) h = (case addColumns e sh t cs h of (s, h') \<Rightarrow> (Some s, h'))"
| "run e (CallDropColumns t cs) h = (Some (dropColumns t cs), h)"
| "run e (CallAlterColumn t c opts) h = (Some (alterColumn e t c opts), h)"
| "run e (CallRenameTable t n) h = (Some (renameTable t n), h)"
| "run e (CallUndoRenameTable t n) h = (Some (undoRenameTable t n), h)"
| "run e (CallRenameColumn t c n) h = (Some (renameColumn t c n), h)"
| "run e (CallUndoRenameColumn t c n) h = (Some (undoRenameColumn t c n), h)"
| "run e (CallAddConstraint t n x) h = (Some (addConstraint t n x), h)"
| "run e (CallDropConstraint t n) h = (Some (dropConstraint t n), h)"
| "run e (CallCreateType t opts) h = (case createType e t opts h of (s, h') \<Rightarrow> (Some s, h'))"
| "run e (CallDropType t) h = (Some (dropType t), h)"
| "run e CallAlterType h = (alterType, h)"

text \<open>A session: calls made one after the other on the same heap.\<close>

fun run_all :: "env \<Rightarrow> call list \<Rightarrow> heap \<Rightarrow> heap" where
  "run_all e [] h = h"
| "run_all e (c # cs) h = run_all e cs (snd (run e c h))"

section \<open>The specification's wording\<close>

text \<open>
  The definitions of this section follow the text of the specification; the theorems
  compare them with the definitions above, which follow the source.
\<close>

text \<open>The columns of an expanded ColumnSet that declare \<^verbatim>\<open>primaryKey\<close>, in order.\<close>

definition spec_primary_columns :: "(string \<times> options) list \<Rightarrow> string list" where
  "spec_primary_columns columnsWithOptions =
     map fst (filter (\<lambda>(column_name, options). truthy (primaryKey options)) columnsWithOptions)"

text \<open>
  The constraint keywords of a column in the order of section 4.3; \<open>sole_primary\<close> says
  whether the column is the sole primary-key column.
\<close>

definition spec_constraint_keywords :: "options \<Rightarrow> bool \<Rightarrow> string list" where
  "spec_constraint_keywords options sole_primary =
     (if truthy (unique options) then [''UNIQUE''] else [])
     @ (if sole_primary then [''PRIMARY KEY''] else [])
     @ (if truthy (notNull options) then [''NOT NULL''] else [])
     @ (if truthy_text (check options) then [''CHECK ('' @ the (check options) @ '')''] else [])
     @ (if truthy_text (references options)
        then [''REFERENCES '' @ the (references options)]
             @ (if truthy_text (onDelete options)
                then [''ON DELETE '' @ the (onDelete options)] else [])
             @ (if truthy_text (onUpdate options)
                then [''ON UPDATE '' @ the (onUpdate options)] else [])
        else [])"

text \<open>
  The fragment of a column: quoted name, resolved type, default clause, and the
  keywords, each after a space.
\<close>

definition spec_column_fragment :: "env \<Rightarrow> string \<Rightarrow> options \<Rightarrow> bool \<Rightarrow> string" where
  \<open>spec_column_fragment e column_name options sole_primary =
     ''"'' @ column_name @ ''"'' @ '' '' @ type_text e (type options)
     @ (if default_value options = Undefined then []
        else '' DEFAULT '' @ escapeValue e (default_value options))
     @ concat (map (\<lambda>keyword. '' '' @ keyword) (spec_constraint_keywords options sole_primary))\<close>

text \<open>The clauses of \<^verbatim>\<open>alterColumn\<close> in the precedence of section 4.4, one per concern.\<close>

definition spec_default_clause :: "env \<Rightarrow> options \<Rightarrow> string list" where
  "spec_default_clause e options =
     (if default_value options = Null then [''DROP DEFAULT'']
      else if default_value options = Undefined then []
      else [''SET DEFAULT '' @ escapeValue e (default_value options)])"

definition spec_type_clause :: "env \<Rightarrow> options \<Rightarrow> string list" where
  "spec_type_clause e options =
     (if truthy_type (type options)
      then [''SET DATA TYPE '' @ type_text e (applyTypeAdapters (type options))] else [])"

definition spec_nullability_clause :: "options \<Rightarrow> string list" where
  "spec_nullability_clause options =
     (if truthy (notNull options) then [''SET NOT NULL'']
      else if notNull options = Bool False \<or> truthy (allowNull options) then [''DROP NOT NULL'']
      else [])"

definition spec_alter_clauses :: "env \<Rightarrow> options \<Rightarrow> string list" where
  "spec_alter_clauses e options =
     spec_default_clause e options @ spec_type_clause e options @ spec_nullability_clause options"

text \<open>One statement whose clauses each carry the prefix, joined by a comma and a newline.\<close>

definition spec_alter_table :: "string \<Rightarrow> string \<Rightarrow> string list \<Rightarrow> string" where
  \<open>spec_alter_table table_name prefix clauses =
     ''ALTER TABLE "'' @ table_name @ ''"'' @ ''\<newline>''
     @ join '',\<newline>'' (map (\<lambda>clause. prefix @ clause) clauses) @ '';''\<close>

section \<open>Auxiliary notions for the heap\<close>

text \<open>An option object after line 31 has run on it.\<close>

definition adapted :: "options \<Rightarrow> options" where
  "adapted opts = opts\<lparr>type := applyTypeAdapters (type opts)\<rparr>"

text \<open>The reference that line 31 leaves.\<close>

definition assigned :: "objref \<Rightarrow> objref" where
  "assigned r = (case r of Fresh opts \<Rightarrow> Fresh (adapted opts) | _ \<Rightarrow> r)"

text \<open>The heap objects that the columns of a ColumnSet refer to.\<close>

definition stored_addrs :: "(string \<rightharpoonup> addr) \<Rightarrow> columns \<Rightarrow> addr set" where
  "stored_addrs type_shorthands columns =
     {a. Stored a \<in> referent type_shorthands ` snd ` set columns}"

text \<open>The options a column ends up with, as a function of the heap before the call.\<close>

definition expanded :: "(string \<rightharpoonup> addr) \<Rightarrow> heap \<Rightarrow> colspec \<Rightarrow> options" where
  "expanded type_shorthands h spec =
     (case referent type_shorthands spec of
        Stored a \<Rightarrow> adapted (h a)
      | Fresh opts \<Rightarrow> adapted opts
      | Proto k \<Rightarrow> empty_options)"

text \<open>Two heaps that differ at most in types that line 31 maps to the same type.\<close>

definition same_adapted :: "heap \<Rightarrow> heap \<Rightarrow> bool" where
  "same_adapted h h' = (\<forall>a. adapted (h a) = adapted (h' a))"

section \<open>Collaborators for the examples\<close>

text \<open>
  The theorems hold for every \<^typ>\<open>env\<close>. The examples are evaluated with one that
  writes \<^verbatim>\<open>NULL\<close> for \<^verbatim>\<open>null\<close>, the text \<^verbatim>\<open><literal>\<close> for every other value and
  the text \<^verbatim>\<open>undefined\<close> for a type that is not a string.
\<close>

definition example_env :: env where
  "example_env =
     \<lparr>escapeValue = (\<lambda>v. if v = Null then ''NULL'' else ''<literal>''),
      render_other = (\<lambda>t. ''undefined'')\<rparr>"

section \<open>Lemmas\<close>

subsection \<open>Joining and prefixing lines\<close>

lemma join_Cons: "join sep (x # xs) = x @ concat (map ((@) sep) xs)"
  by (induction xs arbitrary: x) auto

lemma get_substitution_plain:
  "CHR ''$'' \<notin> set r \<Longrightarrow> get_substitution p f r = r"
  by (induction p f r rule: get_substitution.induct) auto

lemma replace_after_terminators_append:
  "\<forall>c \<in> set x. \<not> is_line_terminator c \<Longrightarrow>
   replace_after_terminators r p (x @ s) = x @ replace_after_terminators r (p @ x) s"
  by (induction x arbitrary: p) auto

lemma replace_after_terminators_sep:
  "CHR ''$'' \<notin> set r \<Longrightarrow>
   replace_after_terminators r p ('',\<newline>'' @ s) =
   '',\<newline>'' @ r @ replace_after_terminators r (p @ '',\<newline>'') s"
  by (simp add: is_line_terminator_def get_substitution_plain)

lemma replace_after_terminators_lines:
  assumes "CHR ''$'' \<notin> set r" and "\<forall>x \<in> set xs. \<forall>c \<in> set x. \<not> is_line_terminator c"
  shows "replace_after_terminators r p (concat (map ((@) '',\<newline>'') xs)) =
         concat (map (\<lambda>x. '',\<newline>'' @ r @ x) xs)"
  using assms(2)
proof (induction xs arbitrary: p)
  case Nil
  then show ?case by simp
next
  case (Cons x xs)
  define sep where "sep = '',\<newline>''"
  have free: "\<forall>c \<in> set x. \<not> is_line_terminator c"
    and rest: "\<forall>x \<in> set xs. \<forall>c \<in> set x. \<not> is_line_terminator c"
    using Cons.prems by simp_all
  have "replace_after_terminators r p (sep @ x @ concat (map ((@) sep) xs)) =
        sep @ r @ replace_after_terminators r (p @ sep) (x @ concat (map ((@) sep) xs))"
    unfolding sep_def using assms(1) by (rule replace_after_terminators_sep)
  also have "replace_after_terminators r (p @ sep) (x @ concat (map ((@) sep) xs)) =
        x @ replace_after_terminators r ((p @ sep) @ x) (concat (map ((@) sep) xs))"
    using free by (rule replace_after_terminators_append)
  also have "replace_after_terminators r ((p @ sep) @ x) (concat (map ((@) sep) xs)) =
        concat (map (\<lambda>x. sep @ r @ x) xs)"
    unfolding sep_def using rest by (rule Cons.IH)
  finally have "replace_after_terminators r p (sep @ x @ concat (map ((@) sep) xs)) =
        sep @ r @ x @ concat (map (\<lambda>x. sep @ r @ x) xs)" .
  then show ?case
    unfolding sep_def by (simp only: list.map concat.simps append_assoc)
qed

text \<open>
  On a non-empty array of lines without line terminators, and with a replacement without
  a dollar sign, the idiom \<^verbatim>\<open>lines.join(',\n').replace(/^/gm, prefix)\<close> puts the prefix
  in front of every line.
\<close>

lemma replace_line_starts_join:
  assumes "CHR ''$'' \<notin> set r" and "xs \<noteq> []"
    and "\<forall>x \<in> set xs. \<forall>c \<in> set x. \<not> is_line_terminator c"
  shows "replace_line_starts r (join '',\<newline>'' xs) = join '',\<newline>'' (map ((@) r) xs)"
proof -
  from assms(2) obtain y ys where xs: "xs = y # ys" by (cases xs) auto
  have "replace_after_terminators r [] (y @ concat (map ((@) '',\<newline>'') ys)) =
        y @ concat (map (\<lambda>x. '',\<newline>'' @ r @ x) ys)"
    using assms(1,3) xs
    by (simp add: replace_after_terminators_append replace_after_terminators_lines)
  then show ?thesis
    using assms(1) xs
    by (simp add: replace_line_starts_def join_Cons get_substitution_plain comp_def)
qed

subsection \<open>Type adapters\<close>

lemma applyTypeAdapters_idem: "applyTypeAdapters (applyTypeAdapters t) = applyTypeAdapters t"
  apply (cases t)
    apply (simp_all add: applyTypeAdapters_def)
  apply (auto simp: member_def type_adapters_def object_prototype_def split: if_splits)
  done

lemma applyTypeAdapters_mapped:
  "map_of type_adapters t = Some v \<Longrightarrow> applyTypeAdapters (TypeName t) = TypeName v"
  by (auto simp: applyTypeAdapters_def member_def type_adapters_def split: if_splits)

lemma applyTypeAdapters_unmapped:
  "map_of type_adapters t = None \<Longrightarrow> t \<notin> set object_prototype \<Longrightarrow>
   applyTypeAdapters (TypeName t) = TypeName t"
  by (simp add: applyTypeAdapters_def member_def)

lemma applyTypeAdapters_other:
  "applyTypeAdapters NoType = NoType" "applyTypeAdapters (Inherited k) = Inherited k"
  by (simp_all add: applyTypeAdapters_def)

lemma adapted_idem: "adapted (adapted opts) = adapted opts"
  by (simp add: adapted_def applyTypeAdapters_idem)

subsection \<open>Shorthand resolution\<close>

lemma referent_shorthand_found:
  "(default_type_shorthands ++ ext) s = Some a \<Longrightarrow>
   referent (default_type_shorthands ++ ext) (Shorthand s) = Stored a"
  by (simp add: referent_def resolve_shorthand_def)

lemma shorthand_override:
  "ext s = Some a \<Longrightarrow> (default_type_shorthands ++ ext) s = Some a"
  by (simp add: map_add_def)

lemma referent_shorthand_fresh:
  "(default_type_shorthands ++ ext) s = None \<Longrightarrow> s \<notin> set object_prototype \<Longrightarrow>
   referent (default_type_shorthands ++ ext) (Shorthand s)
     = Fresh (empty_options\<lparr>type := TypeName s\<rparr>)"
  by (simp only: referent_def resolve_shorthand_def colspec.case option.case if_False)

subsection \<open>The heap after \<^verbatim>\<open>_.mapValues\<close>\<close>

lemma assign_type_eq:
  "assign_type r h = (assigned r, case r of Stored a \<Rightarrow> h(a := adapted (h a)) | _ \<Rightarrow> h)"
  by (cases r) (simp_all add: adapted_def assigned_def)

lemma expand_options_eq:
  "expand_options sh spec h =
     (assigned (referent sh spec),
      case referent sh spec of Stored a \<Rightarrow> h(a := adapted (h a)) | _ \<Rightarrow> h)"
  by (simp add: expand_options_def assign_type_eq)

lemma stored_addrs_Cons:
  "stored_addrs sh ((n, spec) # cols) =
     (case referent sh spec of Stored a \<Rightarrow> {a} | _ \<Rightarrow> {}) \<union> stored_addrs sh cols"
  by (auto simp: stored_addrs_def split: objref.splits)

lemma stored_addrs_Nil: "stored_addrs sh [] = {}"
  by (simp add: stored_addrs_def)

text \<open>
  The callbacks leave every object that a column refers to with its type adapted, and
  every other object as it was; running line 31 twice on an object is running it once.
\<close>

lemma mapValues_expand_options:
  "mapValues (expand_options sh) cols h =
     (map (\<lambda>(n, spec). (n, assigned (referent sh spec))) cols,
      (\<lambda>a. if a \<in> stored_addrs sh cols then adapted (h a) else h a))"
proof (induction cols arbitrary: h)
  case Nil
  then show ?case by (simp add: stored_addrs_Nil)
next
  case (Cons c cols)
  obtain n spec where c: "c = (n, spec)" by (cases c)
  define h1 where "h1 = (case referent sh spec of Stored a \<Rightarrow> h(a := adapted (h a)) | _ \<Rightarrow> h)"
  have step: "expand_options sh spec h = (assigned (referent sh spec), h1)"
    by (simp only: expand_options_eq h1_def)
  have rest: "mapValues (expand_options sh) cols h1 =
     (map (\<lambda>(n, spec). (n, assigned (referent sh spec))) cols,
      (\<lambda>a. if a \<in> stored_addrs sh cols then adapted (h1 a) else h1 a))"
    by (rule Cons.IH)
  have heap: "(\<lambda>a. if a \<in> stored_addrs sh cols then adapted (h1 a) else h1 a) =
     (\<lambda>a. if a \<in> stored_addrs sh ((n, spec) # cols) then adapted (h a) else h a)"
    by (cases "referent sh spec")
      (auto simp: h1_def stored_addrs_Cons adapted_idem fun_eq_iff)
  show ?case
    by (simp only: c mapValues.simps step rest prod.case list.map heap)
qed

lemma deref_assigned:
  "(n, spec) \<in> set cols \<Longrightarrow>
   deref (\<lambda>a. if a \<in> stored_addrs sh cols then adapted (h a) else h a)
     (assigned (referent sh spec))
     = expanded sh h spec"
  by (cases "referent sh spec")
    (force simp: expanded_def assigned_def stored_addrs_def image_iff)+

lemma expand_columns_eq:
  "expand_columns ext cols h =
     (map (\<lambda>(n, spec). (n, expanded (default_type_shorthands ++ ext) h spec)) cols,
      (\<lambda>a. if a \<in> stored_addrs (default_type_shorthands ++ ext) cols
           then adapted (h a) else h a))"
  by (auto simp: expand_columns_def mapValues_expand_options deref_assigned Let_def)

lemma expand_columns_names: "map fst (fst (expand_columns ext cols h)) = map fst cols"
  by (simp add: expand_columns_eq comp_def case_prod_unfold)

text \<open>A call changes an object of the heap at most by adapting its type.\<close>

lemma parseColumns_frame:
  "snd (parseColumns e cols t ext h) a = h a
   \<or> snd (parseColumns e cols t ext h) a = adapted (h a)"
  by (simp add: parseColumns_def case_prod_unfold expand_columns_eq)

lemma same_adapted_refl: "same_adapted h h"
  by (simp add: same_adapted_def)

lemma same_adapted_trans: "same_adapted h h' \<Longrightarrow> same_adapted h' h'' \<Longrightarrow> same_adapted h h''"
  by (simp add: same_adapted_def)

lemma expanded_cong: "same_adapted h h' \<Longrightarrow> expanded sh h spec = expanded sh h' spec"
  by (simp add: expanded_def same_adapted_def split: objref.splits)

lemma expand_columns_cong:
  "same_adapted h h' \<Longrightarrow> fst (expand_columns ext cols h) = fst (expand_columns ext cols h')"
  by (simp add: expand_columns_eq expanded_cong cong: map_cong)

lemma expand_columns_heap: "same_adapted h (snd (expand_columns ext cols h))"
  by (simp add: expand_columns_eq same_adapted_def adapted_idem)

lemma parseColumns_cong:
  "same_adapted h h' \<Longrightarrow> fst (parseColumns e cols t ext h) = fst (parseColumns e cols t ext h')"
  using expand_columns_cong [of h h' ext cols]
  by (simp add: parseColumns_def case_prod_unfold)

lemma parseColumns_heap: "same_adapted h (snd (parseColumns e cols t ext h))"
  using expand_columns_heap [of h ext cols]
  by (simp add: parseColumns_def case_prod_unfold)

lemma run_cong: "same_adapted h h' \<Longrightarrow> fst (run e c h) = fst (run e c h')"
proof (cases c)
  case (CallCreate sh t cs opts)
  assume "same_adapted h h'"
  then show ?thesis
    using parseColumns_cong [of h h' e cs t sh]
    by (simp add: CallCreate create_def case_prod_unfold Let_def)
next
  case (CallAddColumns sh t cs)
  assume "same_adapted h h'"
  then show ?thesis
    using parseColumns_cong [of h h' e cs t sh]
    by (simp add: CallAddColumns addColumns_def case_prod_unfold)
next
  case (CallCreateType t opts)
  assume "same_adapted h h'"
  then show ?thesis
    using parseColumns_cong [of h h' e _ "''undefined''" Map.empty]
    by (cases opts) (simp_all add: CallCreateType createType_def case_prod_unfold)
qed simp_all

lemma run_heap: "same_adapted h (snd (run e c h))"
proof (cases c)
  case (CallCreate sh t cs opts)
  then show ?thesis
    using parseColumns_heap [of h e cs t sh]
    by (simp add: create_def case_prod_unfold Let_def)
next
  case (CallAddColumns sh t cs)
  then show ?thesis
    using parseColumns_heap [of h e cs t sh]
    by (simp add: addColumns_def case_prod_unfold)
next
  case (CallCreateType t opts)
  then show ?thesis
    using parseColumns_heap [of h e _ "''undefined''" Map.empty]
    by (cases opts) (simp_all add: createType_def case_prod_unfold same_adapted_refl)
qed (simp_all add: same_adapted_refl)

lemma run_all_heap: "same_adapted h (run_all e cs h)"
proof (induction cs arbitrary: h)
  case Nil
  show ?case by (simp add: same_adapted_refl)
next
  case (Cons c cs)
  have "same_adapted h (snd (run e c h))" by (rule run_heap)
  moreover have "same_adapted (snd (run e c h)) (run_all e cs (snd (run e c h)))"
    by (rule Cons.IH)
  ultimately show ?case by (auto intro: same_adapted_trans)
qed

subsection \<open>Column fragments\<close>

lemma constraints_string:
  "(if length cs \<noteq> 0 then '' '' @ join '' '' cs else '''') = concat (map ((@) '' '') cs)"
  by (cases cs) (simp_all add: join_Cons)

lemma column_constraints_eq:
  "column_constraints opts = spec_constraint_keywords opts (truthy (primaryKey opts))"
  by (simp add: column_constraints_def spec_constraint_keywords_def push_def Let_def)

lemma column_definition_eq:
  "column_definition e n opts = spec_column_fragment e n opts (truthy (primaryKey opts))"
  unfolding column_definition_def spec_column_fragment_def Let_def constraints_string
    column_constraints_eq
  by simp

text \<open>
  \<^verbatim>\<open>.filter()\<close> drops \<^verbatim>\<open>null\<close> and the empty string: where no column is named by
  the empty string, \<^verbatim>\<open>primaryColumns\<close> are the columns that declare a primary key.
\<close>

lemma primaryColumns_eq:
  "[] \<notin> set (map fst cwo) \<Longrightarrow> primaryColumns cwo = spec_primary_columns cwo"
  by (induction cwo) (auto simp: primaryColumns_def spec_primary_columns_def)

text \<open>The flag of \<^const>\<open>spec_constraint_keywords\<close> decides the keyword.\<close>

lemma primary_key_keyword_iff:
  "''PRIMARY KEY'' \<in> set (spec_constraint_keywords opts sole_primary) \<longleftrightarrow> sole_primary"
  by (simp add: spec_constraint_keywords_def)

lemma spec_keywords_primaryKey_False:
  "spec_constraint_keywords (opts\<lparr>primaryKey := Bool False\<rparr>) b = spec_constraint_keywords opts b"
  by (simp add: spec_constraint_keywords_def)

lemma spec_fragment_primaryKey_False:
  "spec_column_fragment e n (opts\<lparr>primaryKey := Bool False\<rparr>) b = spec_column_fragment e n opts b"
  by (simp add: spec_column_fragment_def spec_keywords_primaryKey_False)

lemma column_lines_multiple:
  assumes "[] \<notin> set (map fst cwo)" and "1 < length (spec_primary_columns cwo)"
  shows "column_lines e t cwo =
           map (\<lambda>(n, opts). spec_column_fragment e n opts False) cwo
           @ [pkey_constraint t (spec_primary_columns cwo)]"
  using assms
  by (simp add: column_lines_def emitted_options_def primaryColumns_eq column_definition_eq
      spec_fragment_primaryKey_False comp_def case_prod_unfold)

lemma column_lines_single:
  assumes "[] \<notin> set (map fst cwo)" and "\<not> 1 < length (spec_primary_columns cwo)"
  shows "column_lines e t cwo =
           map (\<lambda>(n, opts). spec_column_fragment e n opts (truthy (primaryKey opts))) cwo"
  using assms
  by (simp add: column_lines_def emitted_options_def primaryColumns_eq column_definition_eq)

lemma pkey_constraint_text:
  \<open>pkey_constraint t names =
     ''CONSTRAINT "'' @ t @ ''_pkey" PRIMARY KEY (''
       @ join '', '' (map (\<lambda>n. ''"'' @ n @ ''"'') names) @ '')''\<close>
  by (simp add: pkey_constraint_def quote_def)

lemma spec_primary_columns_mem:
  "(n, opts) \<in> set cwo \<Longrightarrow> truthy (primaryKey opts) \<Longrightarrow> n \<in> set (spec_primary_columns cwo)"
  by (force simp: spec_primary_columns_def)

subsection \<open>Evaluation\<close>

lemmas eval_defs =
  expand_columns_eq expanded_def referent_def resolve_shorthand_def default_type_shorthands_def
  module_heap_def adapted_def applyTypeAdapters_def member_def type_adapters_def
  object_prototype_def id_addr_def empty_options_def

lemmas spec_defs =
  spec_primary_columns_def spec_column_fragment_def spec_constraint_keywords_def type_text_def
  example_env_def

section \<open>Primary keys (C1)\<close>

text \<open>
  Where no column is named by the empty string, \<^verbatim>\<open>parseColumns\<close> does what is said of
  primary keys. The text returned is the lines joined by a comma and a newline. If more
  than one column declares \<^verbatim>\<open>primaryKey\<close>, every column's line is its fragment without
  the \<^verbatim>\<open>PRIMARY KEY\<close> keyword, and exactly one line follows them,
  \<^verbatim>\<open>CONSTRAINT "<table>_pkey" PRIMARY KEY (...)\<close>, which lists the quoted names of those
  columns in the order of the ColumnSet. If exactly one column declares it, that column's
  line carries the keyword and no line follows the columns'. The columns are those of the
  ColumnSet after shorthand expansion.
\<close>

lemma composite_primary_key_named:
  assumes "[] \<notin> set (map fst columns)"
  shows \<open>let cwo = fst (expand_columns ext columns h);
             lines = column_lines e t cwo
         in fst (parseColumns e columns t ext h) = join '',\<newline>'' lines
            \<and> (1 < length (spec_primary_columns cwo) \<longrightarrow>
                 lines = map (\<lambda>(n, opts). spec_column_fragment e n opts False) cwo
                         @ [''CONSTRAINT "'' @ t @ ''_pkey" PRIMARY KEY (''
                            @ join '', '' (map (\<lambda>n. ''"'' @ n @ ''"'') (spec_primary_columns cwo))
                            @ '')''])
            \<and> (length (spec_primary_columns cwo) = 1 \<longrightarrow>
                 lines = map (\<lambda>(n, opts). spec_column_fragment e n opts (truthy (primaryKey opts)))
                           cwo)\<close>
proof -
  have names: "[] \<notin> set (map fst (fst (expand_columns ext columns h)))"
    using assms by (simp add: expand_columns_names)
  show ?thesis
    unfolding Let_def
    using column_lines_multiple [OF names, of e t] column_lines_single [OF names, of e t]
    by (simp add: parseColumns_def case_prod_unfold pkey_constraint_text)
qed

text \<open>
  Two columns of shorthand \<^verbatim>\<open>id\<close> give a composite key; one \<^verbatim>\<open>id\<close> column beside an
  \<^verbatim>\<open>int\<close> column gives an inline key.
\<close>

lemma composite_primary_key_named_example:
  \<open>[] \<notin> set (map fst [(''a'', Shorthand ''id''), (''b'', Shorthand ''id'')])
   \<and> 1 < length (spec_primary_columns
         (fst (expand_columns Map.empty [(''a'', Shorthand ''id''), (''b'', Shorthand ''id'')]
            module_heap)))
   \<and> fst (parseColumns example_env [(''a'', Shorthand ''id''), (''b'', Shorthand ''id'')] ''t''
        Map.empty module_heap)
     = ''"a" serial,\<newline>"b" serial,\<newline>CONSTRAINT "t_pkey" PRIMARY KEY ("a", "b")''
   \<and> [] \<notin> set (map fst [(''a'', Shorthand ''id''), (''b'', Shorthand ''int'')])
   \<and> length (spec_primary_columns
         (fst (expand_columns Map.empty [(''a'', Shorthand ''id''), (''b'', Shorthand ''int'')]
            module_heap))) = 1
   \<and> fst (parseColumns example_env [(''a'', Shorthand ''id''), (''b'', Shorthand ''int'')] ''t''
        Map.empty module_heap)
     = ''"a" serial PRIMARY KEY,\<newline>"b" integer''\<close>
  using
    composite_primary_key_named [of "[(''a'', Shorthand ''id''), (''b'', Shorthand ''id'')]"
      Map.empty module_heap example_env "''t''"]
    composite_primary_key_named [of "[(''a'', Shorthand ''id''), (''b'', Shorthand ''int'')]"
      Map.empty module_heap example_env "''t''"]
  by (simp add: Let_def eval_defs spec_defs)

text \<open>
  C1 says that for every ColumnSet in which more than one column declares
  \<^verbatim>\<open>primaryKey\<close>, no column's line carries \<^verbatim>\<open>PRIMARY KEY\<close> and one constraint line lists
  all of those columns. Lines 36 to 39 collect the names of the columns with
  \<^verbatim>\<open>.filter()\<close>, which drops the empty string with the \<^verbatim>\<open>null\<close> entries: a
  primary-key column named by the empty string is not counted. For the ColumnSet
  \<^verbatim>\<open>{ '': 'id', b: 'id' }\<close> two columns declare a primary key, both lines carry the
  keyword and no constraint line follows; for \<^verbatim>\<open>{ '': 'id', b: 'id', c: 'id' }\<close> the
  constraint line lists two of the three columns.
\<close>

theorem primary_key_empty_column_name:
  \<open>spec_primary_columns
       (fst (expand_columns Map.empty [([], Shorthand ''id''), (''b'', Shorthand ''id'')]
          module_heap))
     = [[], ''b'']
   \<and> fst (parseColumns e [([], Shorthand ''id''), (''b'', Shorthand ''id'')] ''t''
        Map.empty module_heap)
     = ''"" serial PRIMARY KEY,\<newline>"b" serial PRIMARY KEY''
   \<and> spec_primary_columns
       (fst (expand_columns Map.empty
          [([], Shorthand ''id''), (''b'', Shorthand ''id''), (''c'', Shorthand ''id'')]
          module_heap))
     = [[], ''b'', ''c'']
   \<and> fst (parseColumns e
        [([], Shorthand ''id''), (''b'', Shorthand ''id''), (''c'', Shorthand ''id'')] ''t''
        Map.empty module_heap)
     = ''"" serial,\<newline>"b" serial,\<newline>"c" serial,\<newline>CONSTRAINT "t_pkey" PRIMARY KEY ("b", "c")''\<close>
  by (simp add: parseColumns_def column_lines_def emitted_options_def primaryColumns_def
      column_definition_def column_constraints_def push_def type_text_def eval_defs Let_def
      spec_primary_columns_def pkey_constraint_def quote_def)

section \<open>Assignment to the caller's objects (C2)\<close>

text \<open>
  C2 says that \<^verbatim>\<open>parseColumns\<close> leaves the caller's ColumnSet and its records unchanged.
  Line 31 assigns to the option object itself: for the ColumnSet \<^verbatim>\<open>{ a: r }\<close> with
  \<^verbatim>\<open>r = { type: 'int' }\<close> at address 1, the object \<^verbatim>\<open>r\<close> has the type \<^verbatim>\<open>integer\<close> after
  the call. (Lines 43 to 46 copy the objects instead.)
\<close>

theorem parseColumns_assigns_type:
  "type ((module_heap(1 := empty_options\<lparr>type := TypeName ''int''\<rparr>)) 1) = TypeName ''int''
   \<and> type (snd (parseColumns e [(''a'', Record 1)] ''t'' Map.empty
              (module_heap(1 := empty_options\<lparr>type := TypeName ''int''\<rparr>))) 1)
       = TypeName ''integer''"
  by (simp add: parseColumns_def case_prod_unfold eval_defs stored_addrs_def)

section \<open>The fragment of a column (C3)\<close>

text \<open>
  Where no column is named by the empty string, the line emitted for a column of an
  expanded ColumnSet is the quoted name, a space, the resolved type, the clause
  \<^verbatim>\<open> DEFAULT <literal>\<close> if and only if \<^verbatim>\<open>default\<close> is not \<^verbatim>\<open>undefined\<close>, and then, each
  after a space and in this order, the keywords whose fields are set (truthy):
  \<^verbatim>\<open>UNIQUE\<close>, \<^verbatim>\<open>PRIMARY KEY\<close> (only for a column that declares a primary key and is the
  only one to), \<^verbatim>\<open>NOT NULL\<close>, \<^verbatim>\<open>CHECK (<expression>)\<close>, \<^verbatim>\<open>REFERENCES <target>\<close>, and
  \<^verbatim>\<open>ON DELETE <action>\<close> and \<^verbatim>\<open>ON UPDATE <action>\<close> only after \<^verbatim>\<open>REFERENCES\<close>. The
  lines of the columns are the first lines that \<^verbatim>\<open>parseColumns\<close> joins.
\<close>

lemma column_fragment_format_named:
  assumes "[] \<notin> set (map fst cwo)"
  shows "take (length cwo) (column_lines e t cwo) =
           map (\<lambda>(n, opts). spec_column_fragment e n opts
                  (truthy (primaryKey opts) \<and> length (spec_primary_columns cwo) = 1)) cwo"
proof (cases "1 < length (spec_primary_columns cwo)")
  case True
  then show ?thesis
    using column_lines_multiple [OF assms True, of e t] by simp
next
  case False
  have "\<forall>(n, opts) \<in> set cwo. truthy (primaryKey opts) \<longrightarrow> length (spec_primary_columns cwo) = 1"
  proof (clarify)
    fix n opts assume "(n, opts) \<in> set cwo" "truthy (primaryKey opts)"
    then have "n \<in> set (spec_primary_columns cwo)" by (rule spec_primary_columns_mem)
    then have "spec_primary_columns cwo \<noteq> []" by auto
    with False show "length (spec_primary_columns cwo) = 1"
      by (cases "spec_primary_columns cwo") auto
  qed
  then have "map (\<lambda>(n, opts). spec_column_fragment e n opts (truthy (primaryKey opts))) cwo =
        map (\<lambda>(n, opts). spec_column_fragment e n opts
                  (truthy (primaryKey opts) \<and> length (spec_primary_columns cwo) = 1)) cwo"
    by (intro map_cong) auto
  then show ?thesis
    using column_lines_single [OF assms False, of e t] by simp
qed

text \<open>A column with every field set, beside the sole primary-key column.\<close>

lemma column_fragment_format_named_example:
  \<open>[] \<notin> set (map fst
       [(''id'', empty_options\<lparr>type := TypeName ''serial'', primaryKey := Bool True\<rparr>),
        (''n'', empty_options\<lparr>type := TypeName ''integer'', default_value := Num 0,
           unique := Bool True, notNull := Bool True, check := Some ''n >= 0'',
           references := Some ''other'', onDelete := Some ''CASCADE'',
           onUpdate := Some ''RESTRICT''\<rparr>)])
   \<and> take 2 (column_lines example_env ''t''
       [(''id'', empty_options\<lparr>type := TypeName ''serial'', primaryKey := Bool True\<rparr>),
        (''n'', empty_options\<lparr>type := TypeName ''integer'', default_value := Num 0,
           unique := Bool True, notNull := Bool True, check := Some ''n >= 0'',
           references := Some ''other'', onDelete := Some ''CASCADE'',
           onUpdate := Some ''RESTRICT''\<rparr>)])
     = [''"id" serial PRIMARY KEY'',
        ''"n" integer DEFAULT <literal> UNIQUE NOT NULL CHECK (n >= 0) REFERENCES other ON DELETE CASCADE ON UPDATE RESTRICT'']\<close>
  using column_fragment_format_named [of
       "[(''id'', empty_options\<lparr>type := TypeName ''serial'', primaryKey := Bool True\<rparr>),
        (''n'', empty_options\<lparr>type := TypeName ''integer'', default_value := Num 0,
           unique := Bool True, notNull := Bool True, check := Some ''n >= 0'',
           references := Some ''other'', onDelete := Some ''CASCADE'',
           onUpdate := Some ''RESTRICT''\<rparr>)]" example_env "''t''"]
  by (simp add: spec_defs empty_options_def numeral_2_eq_2)

text \<open>
  C3 says that the line of every expanded column option record carries
  \<^verbatim>\<open>PRIMARY KEY\<close> only for the sole primary-key column. Whether a column is the sole
  one is decided by the count of lines 36 to 40, which leaves out a column named by the
  empty string: in the expanded ColumnSet of \<^verbatim>\<open>{ '': 'id', b: 'id' }\<close> two columns
  declare a primary key, and the line of column \<^verbatim>\<open>b\<close> carries the keyword. The second
  equation is the line that C3 describes for that column. (All other parts of the line
  are as C3 says, for every ColumnSet: \<open>column_definition_eq\<close>.)
\<close>

theorem fragment_empty_column_name:
  \<open>column_lines e ''t''
       [([], empty_options\<lparr>type := TypeName ''serial'', primaryKey := Bool True\<rparr>),
        (''b'', empty_options\<lparr>type := TypeName ''serial'', primaryKey := Bool True\<rparr>)]
     = [''"" serial PRIMARY KEY'', ''"b" serial PRIMARY KEY'']
   \<and> spec_column_fragment e ''b''
       (empty_options\<lparr>type := TypeName ''serial'', primaryKey := Bool True\<rparr>)
       (truthy (primaryKey (empty_options\<lparr>type := TypeName ''serial'', primaryKey := Bool True\<rparr>))
        \<and> length (spec_primary_columns
             [([], empty_options\<lparr>type := TypeName ''serial'', primaryKey := Bool True\<rparr>),
              (''b'', empty_options\<lparr>type := TypeName ''serial'', primaryKey := Bool True\<rparr>)])
            = 1)
     = ''"b" serial''\<close>
  by (simp add: column_lines_def emitted_options_def primaryColumns_def column_definition_def
      column_constraints_def push_def type_text_def empty_options_def Let_def
      spec_primary_columns_def spec_column_fragment_def spec_constraint_keywords_def)

section \<open>Shorthand strings (C4)\<close>

text \<open>
  C4 says that a column given as a string gets the record of the merged dictionary if the
  string is one of its keys, and otherwise a new record whose only field is the type, that
  string. Line 26 reads \<^verbatim>\<open>type_shorthands[options]\<close>, which also finds what the
  dictionary inherits: \<^verbatim>\<open>valueOf\<close> is no key of the dictionary, yet the column's options
  are the built-in function and its type is \<^verbatim>\<open>undefined\<close>, not \<^verbatim>\<open>valueOf\<close>.
\<close>

theorem shorthand_inherited_key:
  \<open>(default_type_shorthands ++ Map.empty) ''valueOf'' = None
   \<and> referent (default_type_shorthands ++ Map.empty) (Shorthand ''valueOf'') = Proto ''valueOf''
   \<and> fst (expand_columns Map.empty [(''c'', Shorthand ''valueOf'')] h) = [(''c'', empty_options)]
   \<and> fst (parseColumns example_env [(''c'', Shorthand ''valueOf'')] ''t'' Map.empty h)
       = ''"c" undefined''\<close>
  by (simp add: eval_defs parseColumns_def column_lines_def emitted_options_def primaryColumns_def
      column_definition_def column_constraints_def type_text_def example_env_def Let_def)

section \<open>The clauses of \<^verbatim>\<open>alterColumn\<close> (C5, C10)\<close>

text \<open>The actions pushed by lines 115 to 128 are the clauses in the stated precedence.\<close>

lemma alterColumn_actions_eq: "alterColumn_actions e opts = spec_alter_clauses e opts"
  by (simp add: alterColumn_actions_def spec_alter_clauses_def spec_default_clause_def
      spec_type_clause_def spec_nullability_clause_def push_def Let_def)

text \<open>
  Where there is a clause, no clause contains a line terminator and the column name
  contains no dollar sign, the statement is the clauses, each with its prefix.
\<close>

lemma alterColumn_clauses:
  assumes "CHR ''$'' \<notin> set c" and "spec_alter_clauses e opts \<noteq> []"
    and "\<forall>x \<in> set (spec_alter_clauses e opts). \<forall>ch \<in> set x. \<not> is_line_terminator ch"
  shows \<open>alterColumn e t c opts =
           spec_alter_table t (''  ALTER "'' @ c @ ''" '') (spec_alter_clauses e opts)\<close>
proof -
  define p where \<open>p = ''  ALTER "'' @ c @ ''" ''\<close>
  have "CHR ''$'' \<notin> set p" using assms(1) by (simp add: p_def)
  from replace_line_starts_join [OF this assms(2,3)]
  have "replace_line_starts p (join '',\<newline>'' (spec_alter_clauses e opts)) =
        join '',\<newline>'' (map (\<lambda>clause. p @ clause) (spec_alter_clauses e opts))" .
  then show ?thesis
    unfolding alterColumn_def alterColumn_actions_eq spec_alter_table_def p_def [symmetric]
    by simp
qed

lemma alterColumn_example:
  \<open>alterColumn e ''users'' ''age'' (empty_options\<lparr>type := TypeName ''int'', notNull := Bool False\<rparr>)
     = ''ALTER TABLE "users"\<newline>  ALTER "age" SET DATA TYPE integer,\<newline>  ALTER "age" DROP NOT NULL;''\<close>
  by (simp add: alterColumn_def alterColumn_actions_def replace_line_starts_def push_def
      empty_options_def is_line_terminator_def applyTypeAdapters_def member_def
      type_adapters_def type_text_def)

lemma alterColumn_line_terminator:
  \<open>alterColumn e ''t'' ''c'' (empty_options\<lparr>type := TypeName ''double\<newline>precision''\<rparr>)
     = ''ALTER TABLE "t"\<newline>  ALTER "c" SET DATA TYPE double\<newline>  ALTER "c" precision;''\<close>
  by (simp add: alterColumn_def alterColumn_actions_def replace_line_starts_def push_def
      empty_options_def is_line_terminator_def applyTypeAdapters_def member_def
      type_adapters_def object_prototype_def type_text_def)

text \<open>
  C5 says that every clause is prefixed with \<^verbatim>\<open>ALTER "<column>"\<close>. The prefix is the
  replacement string of \<^verbatim>\<open>String.prototype.replace\<close> (line 130), which expands the
  patterns that begin with a dollar sign: for the column \<^verbatim>\<open>a$$b\<close> the clause names the
  column \<^verbatim>\<open>a$b\<close>. The second equation is the statement that C5 describes.
\<close>

theorem alterColumn_dollar_column:
  \<open>alterColumn e ''t'' ''a$$b'' (empty_options\<lparr>notNull := Bool True\<rparr>)
     = ''ALTER TABLE "t"\<newline>  ALTER "a$b" SET NOT NULL;''
   \<and> spec_alter_table ''t'' (''  ALTER "'' @ ''a$$b'' @ ''" '')
       (spec_alter_clauses e (empty_options\<lparr>notNull := Bool True\<rparr>))
     = ''ALTER TABLE "t"\<newline>  ALTER "a$$b" SET NOT NULL;''\<close>
  by (simp add: alterColumn_def alterColumn_actions_def replace_line_starts_def push_def
      empty_options_def is_line_terminator_def spec_alter_table_def spec_alter_clauses_def
      spec_default_clause_def spec_type_clause_def spec_nullability_clause_def)

text \<open>
  With none of the fields set the statement has no action, and for a column name without
  a dollar sign its body is the prefix alone.
\<close>

lemma alterColumn_no_fields:
  assumes "CHR ''$'' \<notin> set c"
    and "default_value opts = Undefined" and "\<not> truthy_type (type opts)"
    and "\<not> truthy (notNull opts)" and "notNull opts \<noteq> Bool False"
    and "\<not> truthy (allowNull opts)"
  shows \<open>alterColumn e t c opts =
           ''ALTER TABLE "'' @ t @ ''"'' @ ''\<newline>'' @ ''  ALTER "'' @ c @ ''" '' @ '';''\<close>
  using assms
  by (simp add: alterColumn_def alterColumn_actions_def replace_line_starts_def
      get_substitution_plain)

text \<open>
  C10 says that for every table and column name the body is the prefix
  \<^verbatim>\<open>  ALTER "<column>" \<close>. No error is raised, but for the column \<^verbatim>\<open>a$$b\<close> the prefix
  names the column \<^verbatim>\<open>a$b\<close>, by the same expansion as in C5.
\<close>

theorem alterColumn_no_fields_dollar_column:
  \<open>alterColumn e ''t'' ''a$$b'' empty_options = ''ALTER TABLE "t"\<newline>  ALTER "a$b" ;''\<close>
  by (simp add: alterColumn_def alterColumn_actions_def replace_line_starts_def
      empty_options_def)

section \<open>Type resolution (C6)\<close>

text \<open>
  C6 says that a token that is no key of the adapter table is returned unchanged. Line 18
  reads \<^verbatim>\<open>type_adapters[type]\<close>, which also finds what the table inherits from
  \<^verbatim>\<open>Object.prototype\<close>: \<^verbatim>\<open>constructor\<close> is no key of the table, and the result is the
  built-in function, not the token. (No error is raised; for a token that is neither a
  key of the table nor of the prototype the result is the token, by
  \<open>applyTypeAdapters_unmapped\<close>.)
\<close>

theorem applyTypeAdapters_inherited_key:
  "map_of type_adapters ''constructor'' = None
   \<and> applyTypeAdapters (TypeName ''constructor'') = Inherited ''constructor''"
  by (simp add: applyTypeAdapters_def member_def type_adapters_def object_prototype_def)

section \<open>Renaming (C7)\<close>

text \<open>
  C7. The reverse registered for \<^verbatim>\<open>renameTable\<close> is \<^verbatim>\<open>undoRenameTable\<close>, and
  \<^verbatim>\<open>undoRenameTable(x, y)\<close> is the statement \<^verbatim>\<open>renameTable(y, x)\<close>; the reverse registered
  for \<^verbatim>\<open>renameColumn\<close> is \<^verbatim>\<open>undoRenameColumn\<close>, and \<^verbatim>\<open>undoRenameColumn(t, c, n)\<close> is the
  statement \<^verbatim>\<open>renameColumn(t, n, c)\<close>.
\<close>

theorem rename_round_trip:
  "reverse RenameTable = Some UndoRenameTable
   \<and> undoRenameTable x y = renameTable y x
   \<and> reverse RenameColumn = Some UndoRenameColumn
   \<and> undoRenameColumn t c n = renameColumn t n c"
  by (simp add: undoRenameTable_def undoRenameColumn_def)

theorem rename_round_trip_witness:
  \<open>undoRenameTable ''old'' ''new'' = ''ALTER TABLE "new" RENAME TO "old";''
   \<and> undoRenameColumn ''t'' ''old'' ''new'' = ''ALTER TABLE "t" RENAME "new" TO "old";''\<close>
  using rename_round_trip [of "''old''" "''new''" "''t''" "''old''" "''new''"]
  by (simp add: renameTable_def renameColumn_def)

section \<open>Repeated calls (C8)\<close>

text \<open>
  C8. A call of a builder returns the same text whatever calls of builders were made
  before it on the same objects, the same call among them: the assignments of line 31
  that earlier calls have made to shared records and shorthand dictionaries do not change
  what a later call returns.
\<close>

theorem builders_referentially_transparent:
  "fst (run e c (run_all e cs h)) = fst (run e c h)"
  using run_cong [OF run_all_heap, of e c h e cs] by simp

text \<open>
  The example of the specification, \<^verbatim>\<open>create({})('users', { id: 'id', name: { type:
  'string', notNull: true } })\<close>, called a second time with the same objects.
\<close>

theorem builders_referentially_transparent_witness:
  \<open>fst (run example_env
      (CallCreate Map.empty ''users'' [(''id'', Shorthand ''id''), (''name'', Record 1)]
         empty_options)
      (run_all example_env
         [CallCreate Map.empty ''users'' [(''id'', Shorthand ''id''), (''name'', Record 1)]
            empty_options]
         (module_heap(1 := empty_options\<lparr>type := TypeName ''string'', notNull := Bool True\<rparr>))))
   = Some ''CREATE TABLE "users" (\<newline>  "id" serial PRIMARY KEY,\<newline>  "name" text NOT NULL\<newline>);''\<close>
  using builders_referentially_transparent [of example_env
      "CallCreate Map.empty ''users'' [(''id'', Shorthand ''id''), (''name'', Record 1)]
         empty_options"
      "[CallCreate Map.empty ''users'' [(''id'', Shorthand ''id''), (''name'', Record 1)]
         empty_options]"
      "module_heap(1 := empty_options\<lparr>type := TypeName ''string'', notNull := Bool True\<rparr>)"]
  by (simp add: create_def parseColumns_def column_lines_def emitted_options_def
      primaryColumns_def column_definition_def column_constraints_def push_def type_text_def
      replace_line_starts_def is_line_terminator_def eval_defs Let_def)

section \<open>Dropping columns (C9)\<close>

lemma dropColumns_Name: "dropColumns t (Name s) = dropColumns t (Names [s])"
  by (simp add: dropColumns_def)

lemma dropColumns_ColumnSet: "dropColumns t (ColumnSet cs) = dropColumns t (Names (map fst cs))"
  by (simp add: dropColumns_def)

text \<open>
  For a non-empty array of names without line terminators the statement has one
  \<^verbatim>\<open>DROP\<close> clause for each name, in order.
\<close>

lemma dropColumns_clauses:
  assumes "names \<noteq> []" and "\<forall>n \<in> set names. \<forall>ch \<in> set n. \<not> is_line_terminator ch"
  shows \<open>dropColumns t (Names names) =
           spec_alter_table t ''  DROP '' (map (\<lambda>n. ''"'' @ n @ ''"'') names)\<close>
proof -
  define p where "p = ''  DROP ''"
  have 1: "CHR ''$'' \<notin> set p" by (simp add: p_def)
  have 2: "quote names \<noteq> []" using assms(1) by (simp add: quote_def)
  have 3: "\<forall>x \<in> set (quote names). \<forall>ch \<in> set x. \<not> is_line_terminator ch"
    using assms(2) by (auto simp: quote_def is_line_terminator_def)
  from replace_line_starts_join [OF 1 2 3]
  have "replace_line_starts p (join '',\<newline>'' (quote names)) =
        join '',\<newline>'' (map (\<lambda>clause. p @ clause) (quote names))" .
  moreover have \<open>quote names = map (\<lambda>n. ''"'' @ n @ ''"'') names\<close>
    by (simp add: quote_def)
  ultimately show ?thesis
    unfolding dropColumns_def spec_alter_table_def p_def [symmetric]
    by simp
qed

text \<open>Without a column the body is the prefix alone.\<close>

lemma dropColumns_no_columns:
  \<open>dropColumns t (Names []) = ''ALTER TABLE "'' @ t @ ''"'' @ ''\<newline>'' @ ''  DROP ;''\<close>
  by (simp add: dropColumns_def quote_def replace_line_starts_def)

lemma dropColumns_example:
  \<open>dropColumns ''users'' (Names [''name'', ''age''])
     = ''ALTER TABLE "users"\<newline>  DROP "name",\<newline>  DROP "age";''\<close>
  by (simp add: dropColumns_def quote_def replace_line_starts_def is_line_terminator_def)

text \<open>
  C9 says that in every case the statement has one \<^verbatim>\<open>DROP "<name>"\<close> clause for each
  column. The prefix is put at the start of every line of the joined names (line 111): a
  name that contains a line terminator gets a second \<^verbatim>\<open>DROP\<close> inside its quotes. The
  second equation is the statement that C9 describes.
\<close>

theorem dropColumns_line_terminator:
  \<open>dropColumns ''t'' (Names [''a\<newline>b'']) = ''ALTER TABLE "t"\<newline>  DROP "a\<newline>  DROP b";''
   \<and> spec_alter_table ''t'' ''  DROP '' (map (\<lambda>n. ''"'' @ n @ ''"'') [''a\<newline>b''])
     = ''ALTER TABLE "t"\<newline>  DROP "a\<newline>b";''\<close>
  by (simp add: dropColumns_def quote_def replace_line_starts_def is_line_terminator_def
      spec_alter_table_def)

end
